theory Spec2Isabelle
  imports Complex_Main "HOL-Library.Log_Nat"
begin

section \<open>Numbers\<close>

text \<open>
  The program computes with JavaScript numbers. The model of the weight calculation takes
  the inputs and every intermediate value as exact reals, and makes only the one non-real
  effect of the source explicit: a division whose denominator can be zero. The three such
  divisions all divide by \<open>heightInMeters * heightInMeters\<close>, a square, whose zero is
  the positive zero; JavaScript then yields \<open>Infinity\<close>, \<open>-Infinity\<close> or \<open>NaN\<close>
  according to the sign of the numerator.

  The rounding, overflow and underflow of the IEEE doubles are not modelled in the weight
  calculation. The exact values are those of the program where its sums and products are
  exact and stay in range, and their signs and comparisons are the program's where no
  operation overflows or underflows; a statement that depends on more than that is made
  only for whole-number heights of bounded size. The usage counter, whose only arithmetic
  is \<open>count++\<close>, models the rounding of that increment (\<open>roundToDouble\<close> below).
\<close>

datatype jsnum = Finite real | PosInfinity | NegInfinity | NaN

definition jsdiv :: "real \<Rightarrow> real \<Rightarrow> jsnum" where
  "jsdiv x d =
     (if d \<noteq> 0 then Finite (x / d)
      else if 0 < x then PosInfinity
      else if x < 0 then NegInfinity
      else NaN)"

text \<open>The comparisons of a computed number with a finite constant; every comparison with
  \<open>NaN\<close> is false.\<close>

fun js_lt :: "jsnum \<Rightarrow> real \<Rightarrow> bool" where
  "js_lt (Finite x) c = (x < c)"
| "js_lt PosInfinity c = False"
| "js_lt NegInfinity c = True"
| "js_lt NaN c = False"

fun js_le :: "jsnum \<Rightarrow> real \<Rightarrow> bool" where
  "js_le (Finite x) c = (x \<le> c)"
| "js_le PosInfinity c = False"
| "js_le NegInfinity c = True"
| "js_le NaN c = False"

fun js_gt :: "jsnum \<Rightarrow> real \<Rightarrow> bool" where
  "js_gt (Finite x) c = (c < x)"
| "js_gt PosInfinity c = True"
| "js_gt NegInfinity c = False"
| "js_gt NaN c = False"

fun js_ge :: "jsnum \<Rightarrow> real \<Rightarrow> bool" where
  "js_ge (Finite x) c = (c \<le> x)"
| "js_ge PosInfinity c = True"
| "js_ge NegInfinity c = False"
| "js_ge NaN c = False"


section \<open>The weight calculation (the effect of \<open>App\<close> on its five inputs)\<close>

datatype sex = male | female

datatype bone_structure = small | medium | large

datatype health_status = within_range | partially_outside | fully_outside

record Input =
  sex :: sex
  age :: real
  heightFeet :: real
  heightInches :: real
  boneStructure :: bone_structure

record WeightResult =
  baseHamwiWeightLbs :: real
  adjustedFrameWeightLbs :: real
  minHealthyWeightLbs :: real
  maxHealthyWeightLbs :: real
  bmiAtMinWeight :: jsnum
  bmiAtMaxWeight :: jsnum
  bmiHealthyMinLbs :: real
  bmiHealthyMaxLbs :: real
  healthStatus :: health_status
  healthStatusLabel :: string
  bmiClassification :: string

text \<open>What one run of the effect does: the value it passes to \<open>setRecommendedWeight\<close>
  (\<open>None\<close> for \<open>null\<close>) and whether it calls \<open>incrementUsage\<close>.\<close>

record Outcome =
  recommendedWeight :: "WeightResult option"
  incrementUsage :: bool

definition totalInches :: "Input \<Rightarrow> real" where
  "totalInches i = (heightFeet i * 12) + heightInches i"

definition heightInMeters :: "Input \<Rightarrow> real" where
  "heightInMeters i = totalInches i * 0.0254"

definition baseHeightInches :: real where
  "baseHeightInches = 60"

text \<open>The two arms of the Hamwi formula, below five feet and from five feet on.\<close>

definition hamwiBelow :: "sex \<Rightarrow> real \<Rightarrow> real" where
  "hamwiBelow s t =
     (if s = male then 106 - (baseHeightInches - t) * 6
      else 100 - (baseHeightInches - t) * 5)"

definition hamwiFrom :: "sex \<Rightarrow> real \<Rightarrow> real" where
  "hamwiFrom s t =
     (if s = male then 106 + (t - baseHeightInches) * 6
      else 100 + (t - baseHeightInches) * 5)"

definition hamwi :: "sex \<Rightarrow> real \<Rightarrow> real" where
  "hamwi s t = (if t < baseHeightInches then hamwiBelow s t else hamwiFrom s t)"

definition frameAdjusted :: "bone_structure \<Rightarrow> real \<Rightarrow> real" where
  "frameAdjusted b w =
     (if b = small then w * 0.93
      else if b = large then w * 1.07
      else w)"

definition rangePercentage :: real where
  "rangePercentage = 0.08"

definition adjustedFrameWeight :: "Input \<Rightarrow> real" where
  "adjustedFrameWeight i = frameAdjusted (boneStructure i) (hamwi (sex i) (totalInches i))"

definition minHealthy :: "Input \<Rightarrow> real" where
  "minHealthy i = adjustedFrameWeight i * (1 - rangePercentage)"

definition maxHealthy :: "Input \<Rightarrow> real" where
  "maxHealthy i = adjustedFrameWeight i * (1 + rangePercentage)"

definition midpointWeightLbs :: "Input \<Rightarrow> real" where
  "midpointWeightLbs i = (minHealthy i + maxHealthy i) / 2"

definition midpointWeightKg :: "Input \<Rightarrow> real" where
  "midpointWeightKg i = midpointWeightLbs i / 2.20462"

definition bmiAtMidpoint :: "Input \<Rightarrow> jsnum" where
  "bmiAtMidpoint i = jsdiv (midpointWeightKg i) (heightInMeters i * heightInMeters i)"

definition classify :: "jsnum \<Rightarrow> string" where
  "classify b =
     (if js_lt b 18.5 then ''Underweight''
      else if js_ge b 18.5 \<and> js_le b 24.9 then ''Normal''
      else if js_ge b 25 \<and> js_le b 29.9 then ''Overweight''
      else ''Obese'')"

definition status :: "jsnum \<Rightarrow> jsnum \<Rightarrow> health_status \<times> string" where
  "status bmin bmax =
     (if js_gt bmin 24.9 \<or> js_lt bmax 18.5
        then (fully_outside, ''Outside Standard BMI Range'')
      else if js_lt bmin 18.5 \<or> js_gt bmax 24.9
        then (partially_outside, ''Partially Outside Standard BMI Range'')
      else (within_range, ''Within Standard BMI Range''))"

definition weightEffect :: "Input \<Rightarrow> Outcome" where
  "weightEffect i =
     (if age i \<le> 0 \<or> heightFeet i < 0 \<or> heightInches i < 0 \<or> heightInches i > 11
      then \<lparr>recommendedWeight = None, incrementUsage = False\<rparr>
      else
        let h = heightInMeters i;
            bmin = jsdiv (minHealthy i) (h * h);
            bmax = jsdiv (maxHealthy i) (h * h)
        in \<lparr>recommendedWeight = Some
              \<lparr>baseHamwiWeightLbs = hamwi (sex i) (totalInches i),
               adjustedFrameWeightLbs = adjustedFrameWeight i,
               minHealthyWeightLbs = minHealthy i,
               maxHealthyWeightLbs = maxHealthy i,
               bmiAtMinWeight = bmin,
               bmiAtMaxWeight = bmax,
               bmiHealthyMinLbs = 18.5 * (h * h) * 2.20462,
               bmiHealthyMaxLbs = 24.9 * (h * h) * 2.20462,
               healthStatus = fst (status bmin bmax),
               healthStatusLabel = snd (status bmin bmax),
               bmiClassification = classify (bmiAtMidpoint i)\<rparr>,
            incrementUsage = (age i \<ge> 18 \<and> heightFeet i > 0 \<and> heightInches i \<ge> 0)\<rparr>)"

text \<open>The specification's \<open>compute\<close>: the result the effect stores.\<close>

definition compute :: "Input \<Rightarrow> WeightResult option" where
  "compute i = recommendedWeight (weightEffect i)"

text \<open>The specification's domain of valid inputs.\<close>

definition valid :: "Input \<Rightarrow> bool" where
  "valid i = (age i > 0 \<and> heightFeet i \<ge> 0 \<and> 0 \<le> heightInches i \<and> heightInches i \<le> 11)"

section \<open>The usage counter (the server's \<open>usage.json\<close>)\<close>

text \<open>
  The storage is the one file \<open>USAGE_FILE\<close>. It is absent, or present with a content and
  a permission to read it. A content is a text that \<open>JSON.parse\<close> rejects (or parses to
  \<open>null\<close>, whose property access throws as well), or the text of a value whose
  \<open>count\<close> property is a number or is missing. A count is a whole-number double, given
  as the integer it is. A write replaces the content, creating a readable file when there
  was none; a failing write is outside the model, as the source has no branch for it.
\<close>

datatype file_text = Unparsable | CountRecord "int option"

datatype usage_file = Absent | Present bool file_text

datatype read_error = ENOENT | OtherError

definition readFile :: "usage_file \<Rightarrow> read_error + file_text" where
  "readFile f =
     (case f of
        Absent \<Rightarrow> Inl ENOENT
      | Present readable t \<Rightarrow> if readable then Inr t else Inl OtherError)"

definition writeFile :: "usage_file \<Rightarrow> file_text \<Rightarrow> usage_file" where
  "writeFile f t =
     (case f of
        Absent \<Rightarrow> Present True t
      | Present readable _ \<Rightarrow> Present readable t)"

text \<open>\<open>JSON.parse(data)\<close> followed by \<open>usage.count || 0\<close>: a missing count and the
  count 0 are falsy and give 0.\<close>

definition parseCount :: "file_text \<Rightarrow> read_error + int" where
  "parseCount t =
     (case t of
        Unparsable \<Rightarrow> Inl OtherError
      | CountRecord None \<Rightarrow> Inr 0
      | CountRecord (Some n) \<Rightarrow> Inr (if n \<noteq> 0 then n else 0))"

text \<open>The \<open>try\<close> block of \<open>getUsageCount\<close>: the count, or the error thrown.\<close>

definition readCount :: "usage_file \<Rightarrow> read_error + int" where
  "readCount f =
     (case readFile f of
        Inl e \<Rightarrow> Inl e
      | Inr data \<Rightarrow> parseCount data)"

definition getUsageCount :: "usage_file \<Rightarrow> int \<times> usage_file" where
  "getUsageCount f =
     (case readCount f of
        Inr n \<Rightarrow> (n, f)
      | Inl e \<Rightarrow>
          if e = ENOENT then (0, writeFile f (CountRecord (Some 0)))
          else (0, f))"

text \<open>
  The double nearest to an integer \<open>m\<close>, ties going to the even significand (the rounding
  of every arithmetic result in JavaScript). Every integer up to \<open>2^53\<close> in absolute
  value is a double; above, with \<open>b\<close> the number of bits of \<open>\<bar>m\<bar>\<close>, the doubles are
  the multiples of \<open>2^(b - 53)\<close>. The argument is at most one away from a double, so it is
  below the overflow threshold.
\<close>

definition roundToDouble :: "int \<Rightarrow> int" where
  "roundToDouble m =
     (if \<bar>m\<bar> \<le> 2 ^ 53 then m
      else
        let u = 2 ^ nat (bitlen \<bar>m\<bar> - 53);
            q = m div u;
            r = m mod u
        in if 2 * r < u then q * u
           else if u < 2 * r then (q + 1) * u
           else if even q then q * u
           else (q + 1) * u)"

text \<open>\<open>count++\<close> is the double sum of the count and 1.\<close>

definition incrementUsageCount :: "usage_file \<Rightarrow> int \<times> usage_file" where
  "incrementUsageCount f =
     (let (n, f') = getUsageCount f;
          count = roundToDouble (n + 1)
      in (count, writeFile f' (CountRecord (Some count))))"


section \<open>Helper lemmas\<close>

lemma hamwi_male: "hamwi male t = 6 * t - 254"
  by (simp add: hamwi_def hamwiBelow_def hamwiFrom_def baseHeightInches_def)

lemma hamwi_female: "hamwi female t = 5 * t - 200"
  by (simp add: hamwi_def hamwiBelow_def hamwiFrom_def baseHeightInches_def)

lemma hamwi_mono: "t1 \<le> t2 \<Longrightarrow> hamwi s t1 \<le> hamwi s t2"
  by (cases s) (simp_all add: hamwi_male hamwi_female)






text \<open>The fields of a result, read off the effect.\<close>

lemma compute_fields:
  assumes "compute i = Some r"
  shows "baseHamwiWeightLbs r = hamwi (sex i) (totalInches i)"
    and "adjustedFrameWeightLbs r = adjustedFrameWeight i"
    and "minHealthyWeightLbs r = minHealthy i"
    and "maxHealthyWeightLbs r = maxHealthy i"
    and "bmiAtMinWeight r = jsdiv (minHealthy i) (heightInMeters i * heightInMeters i)"
    and "bmiAtMaxWeight r = jsdiv (maxHealthy i) (heightInMeters i * heightInMeters i)"
    and "healthStatus r = fst (status (bmiAtMinWeight r) (bmiAtMaxWeight r))"
    and "healthStatusLabel r = snd (status (bmiAtMinWeight r) (bmiAtMaxWeight r))"
    and "bmiClassification r = classify (bmiAtMidpoint i)"
  using assms by (auto simp add: compute_def weightEffect_def Let_def split: if_splits)

lemmas calc_defs =
  compute_def weightEffect_def valid_def totalInches_def heightInMeters_def
  baseHeightInches_def hamwi_def hamwiBelow_def hamwiFrom_def frameAdjusted_def
  rangePercentage_def adjustedFrameWeight_def minHealthy_def maxHealthy_def
  midpointWeightLbs_def
  midpointWeightKg_def bmiAtMidpoint_def classify_def status_def jsdiv_def Let_def

lemmas counter_defs =
  incrementUsageCount_def getUsageCount_def readCount_def readFile_def parseCount_def
  writeFile_def




section \<open>The claims\<close>

text \<open>
  C1. Claimed: the midpoint BMI is classified Underweight below 18.5, Normal in
  [18.5, 24.9], Overweight in (24.9, 29.9] and Obese above 29.9. The source tests
  \<open>bmiAtMidpoint >= 25\<close> for Overweight, so a midpoint BMI above 24.9 and below 25
  falls through to the last arm. For a man of 7 ft 1 in with a medium frame the midpoint
  BMI is 12800000000000 / 513817665911, about 24.91, inside (24.9, 29.9], and the
  classification stored is Obese.
\<close>

theorem midpoint_gap_classified_obese:
  "bmiAtMidpoint \<lparr>sex = male, age = 25, heightFeet = 7, heightInches = 1,
       boneStructure = medium\<rparr> = Finite (12800000000000 / 513817665911) \<and>
   js_gt (bmiAtMidpoint \<lparr>sex = male, age = 25, heightFeet = 7, heightInches = 1,
       boneStructure = medium\<rparr>) 24.9 \<and>
   js_le (bmiAtMidpoint \<lparr>sex = male, age = 25, heightFeet = 7, heightInches = 1,
       boneStructure = medium\<rparr>) 29.9 \<and>
   valid \<lparr>sex = male, age = 25, heightFeet = 7, heightInches = 1,
       boneStructure = medium\<rparr> \<and>
   map_option bmiClassification
     (compute \<lparr>sex = male, age = 25, heightFeet = 7, heightInches = 1,
        boneStructure = medium\<rparr>) = Some ''Obese''"
  by (simp add: calc_defs)

text \<open>
  C2. Claimed: \<open>bmiAtMinWeight\<close> and \<open>bmiAtMaxWeight\<close> are the range's bounds converted
  from pounds to kilograms and divided by the squared height. The source divides the
  pounds by the squared height with no conversion (the midpoint path does convert). For
  the initial form values (male, 25 years, 5 ft 7 in, medium frame) the stored fields are
  the unconverted quotients, above 47 and above 55, where the converted ones are below
  21.4 and below 25.1.
\<close>

theorem bmi_bounds_not_converted:
  "map_option bmiAtMinWeight
     (compute \<lparr>sex = male, age = 25, heightFeet = 5, heightInches = 7,
        boneStructure = medium\<rparr>) = Some (Finite (136.16 / (1.7018 * 1.7018))) \<and>
   map_option bmiAtMaxWeight
     (compute \<lparr>sex = male, age = 25, heightFeet = 5, heightInches = 7,
        boneStructure = medium\<rparr>) = Some (Finite (159.84 / (1.7018 * 1.7018))) \<and>
   minHealthy \<lparr>sex = male, age = 25, heightFeet = 5, heightInches = 7,
        boneStructure = medium\<rparr> = 136.16 \<and>
   maxHealthy \<lparr>sex = male, age = 25, heightFeet = 5, heightInches = 7,
        boneStructure = medium\<rparr> = 159.84 \<and>
   heightInMeters \<lparr>sex = male, age = 25, heightFeet = 5, heightInches = 7,
        boneStructure = medium\<rparr> = 1.7018 \<and>
   (47::real) < 136.16 / (1.7018 * 1.7018) \<and>
   (136.16 / 2.20462) / (1.7018 * 1.7018) < (21.4::real) \<and>
   (55::real) < 159.84 / (1.7018 * 1.7018) \<and>
   (159.84 / 2.20462) / (1.7018 * 1.7018) < (25.1::real)"
  by (simp add: calc_defs)




text \<open>
  C4. Claimed: the increment is invoked exactly when the computation succeeds and the age
  is at least 18, also at \<open>heightFeet = 0\<close>. The source's condition is
  \<open>age >= 18 && heightFeet > 0 && heightInches >= 0\<close>: for an adult of 0 ft 7 in the
  computation succeeds and the increment is not invoked.
\<close>

theorem increment_at_zero_feet_counterexample:
  "valid \<lparr>sex = male, age = 25, heightFeet = 0, heightInches = 7,
       boneStructure = medium\<rparr> \<and>
   compute \<lparr>sex = male, age = 25, heightFeet = 0, heightInches = 7,
       boneStructure = medium\<rparr> \<noteq> None \<and>
   (18::real) \<le> age \<lparr>sex = male, age = 25, heightFeet = 0, heightInches = 7,
       boneStructure = medium\<rparr> \<and>
   incrementUsage (weightEffect \<lparr>sex = male, age = 25, heightFeet = 0, heightInches = 7,
       boneStructure = medium\<rparr>) = False"
  by (simp add: calc_defs)

text \<open>
  C4, amended. The increment is invoked exactly when the computation succeeds, the age is
  at least 18 and \<open>heightFeet\<close> is above zero; so never for an invalid input, for an age
  below 18, or for a height of zero feet.
\<close>

theorem increment_iff:
  "incrementUsage (weightEffect i) \<longleftrightarrow>
     (compute i \<noteq> None \<and> 18 \<le> age i \<and> 0 < heightFeet i)"
  by (auto simp add: compute_def weightEffect_def Let_def)

theorem increment_iff_witness:
  "incrementUsage (weightEffect \<lparr>sex = male, age = 25, heightFeet = 5, heightInches = 7,
       boneStructure = medium\<rparr>) \<and>
   compute \<lparr>sex = male, age = 25, heightFeet = 5, heightInches = 7,
       boneStructure = medium\<rparr> \<noteq> None"
  using increment_iff
    [of "\<lparr>sex = male, age = 25, heightFeet = 5, heightInches = 7, boneStructure = medium\<rparr>"]
  by (simp add: compute_def weightEffect_def Let_def)

text \<open>
  C5. \<open>compute\<close> gives no result exactly when the input is out of domain (age at most 0,
  or feet below 0, or inches outside [0, 11]); for every input in the domain it gives a
  result, and a result is a whole record, each of its fields set as \<open>compute_fields\<close>
  says.
\<close>

theorem compute_none_iff_invalid:
  "(compute i = None \<longleftrightarrow>
      age i \<le> 0 \<or> heightFeet i < 0 \<or> heightInches i < 0 \<or> 11 < heightInches i) \<and>
   (compute i = None \<longleftrightarrow> \<not> valid i) \<and>
   (valid i \<longrightarrow> (\<exists>r. compute i = Some r))"
  by (auto simp add: compute_def weightEffect_def valid_def Let_def)

theorem compute_none_iff_invalid_witness:
  "valid \<lparr>sex = male, age = 25, heightFeet = 5, heightInches = 7,
       boneStructure = medium\<rparr> \<and>
   (\<exists>r. compute \<lparr>sex = male, age = 25, heightFeet = 5, heightInches = 7,
       boneStructure = medium\<rparr> = Some r) \<and>
   compute \<lparr>sex = male, age = 0, heightFeet = 5, heightInches = 7,
       boneStructure = medium\<rparr> = None \<and>
   compute \<lparr>sex = male, age = 25, heightFeet = 5, heightInches = 12,
       boneStructure = medium\<rparr> = None"
  using compute_none_iff_invalid
    [of "\<lparr>sex = male, age = 25, heightFeet = 5, heightInches = 7, boneStructure = medium\<rparr>"]
    compute_none_iff_invalid
    [of "\<lparr>sex = male, age = 0, heightFeet = 5, heightInches = 7, boneStructure = medium\<rparr>"]
    compute_none_iff_invalid
    [of "\<lparr>sex = male, age = 25, heightFeet = 5, heightInches = 12, boneStructure = medium\<rparr>"]
  by (simp add: valid_def)

text \<open>
  C6. For every valid input, with a result \<open>r\<close>: \<open>healthStatus r\<close> is \<open>fully_outside\<close>
  exactly when \<open>bmiAtMinWeight r > 24.9\<close> or \<open>bmiAtMaxWeight r < 18.5\<close>; otherwise it is
  \<open>partially_outside\<close> exactly when \<open>bmiAtMinWeight r < 18.5\<close> or
  \<open>bmiAtMaxWeight r > 24.9\<close>; otherwise it is \<open>within\<close>.
\<close>

theorem healthStatus_cases:
  assumes "compute i = Some r"
  shows "(healthStatus r = fully_outside \<longleftrightarrow>
            js_gt (bmiAtMinWeight r) 24.9 \<or> js_lt (bmiAtMaxWeight r) 18.5) \<and>
         (healthStatus r = partially_outside \<longleftrightarrow>
            \<not> (js_gt (bmiAtMinWeight r) 24.9 \<or> js_lt (bmiAtMaxWeight r) 18.5) \<and>
            (js_lt (bmiAtMinWeight r) 18.5 \<or> js_gt (bmiAtMaxWeight r) 24.9)) \<and>
         (healthStatus r = within_range \<longleftrightarrow>
            \<not> (js_gt (bmiAtMinWeight r) 24.9 \<or> js_lt (bmiAtMaxWeight r) 18.5) \<and>
            \<not> (js_lt (bmiAtMinWeight r) 18.5 \<or> js_gt (bmiAtMaxWeight r) 24.9))"
  by (simp add: compute_fields(7) [OF assms] status_def)

theorem healthStatus_cases_witness:
  "compute \<lparr>sex = female, age = 20, heightFeet = 3, heightInches = 10,
       boneStructure = medium\<rparr> \<noteq> None \<and>
   healthStatus (the (compute \<lparr>sex = female, age = 20, heightFeet = 3, heightInches = 10,
       boneStructure = medium\<rparr>)) = within_range \<and>
   bmiAtMinWeight (the (compute \<lparr>sex = female, age = 20, heightFeet = 3, heightInches = 10,
       boneStructure = medium\<rparr>)) = Finite (27.6 / (1.1684 * 1.1684)) \<and>
   bmiAtMaxWeight (the (compute \<lparr>sex = female, age = 20, heightFeet = 3, heightInches = 10,
       boneStructure = medium\<rparr>)) = Finite (32.4 / (1.1684 * 1.1684))"
  using healthStatus_cases
    [of "\<lparr>sex = female, age = 20, heightFeet = 3, heightInches = 10, boneStructure = medium\<rparr>"
        "the (compute \<lparr>sex = female, age = 20, heightFeet = 3, heightInches = 10,
           boneStructure = medium\<rparr>)"]
  by (simp add: calc_defs)

text \<open>
  C7. With the sex fixed (whatever the frames), \<open>baseHamwiWeightLbs\<close> does not decrease
  when \<open>totalInches\<close> grows, over all valid inputs and across the split at 60 inches,
  where both arms give 106 for a man and 100 for a woman.
\<close>

theorem baseHamwi_monotone:
  "(compute i1 = Some r1 \<and> compute i2 = Some r2 \<and> sex i1 = sex i2 \<and>
      totalInches i1 \<le> totalInches i2 \<longrightarrow>
      baseHamwiWeightLbs r1 \<le> baseHamwiWeightLbs r2) \<and>
   hamwiBelow male 60 = 106 \<and> hamwiFrom male 60 = 106 \<and>
   hamwiBelow female 60 = 100 \<and> hamwiFrom female 60 = 100"
proof -
  have "baseHamwiWeightLbs r1 \<le> baseHamwiWeightLbs r2"
    if "compute i1 = Some r1" "compute i2 = Some r2" "sex i1 = sex i2"
      "totalInches i1 \<le> totalInches i2"
    using that by (simp add: compute_fields(1) hamwi_mono)
  then show ?thesis
    by (simp add: hamwiBelow_def hamwiFrom_def baseHeightInches_def)
qed

theorem baseHamwi_monotone_witness:
  "totalInches \<lparr>sex = male, age = 25, heightFeet = 4, heightInches = 11,
       boneStructure = small\<rparr> \<le>
   totalInches \<lparr>sex = male, age = 40, heightFeet = 5, heightInches = 7,
       boneStructure = large\<rparr> \<and>
   compute \<lparr>sex = male, age = 25, heightFeet = 4, heightInches = 11,
       boneStructure = small\<rparr> \<noteq> None \<and>
   compute \<lparr>sex = male, age = 40, heightFeet = 5, heightInches = 7,
       boneStructure = large\<rparr> \<noteq> None \<and>
   baseHamwiWeightLbs (the (compute \<lparr>sex = male, age = 25, heightFeet = 4, heightInches = 11,
       boneStructure = small\<rparr>)) = 100 \<and>
   baseHamwiWeightLbs (the (compute \<lparr>sex = male, age = 40, heightFeet = 5, heightInches = 7,
       boneStructure = large\<rparr>)) = 148"
  using baseHamwi_monotone
    [of "\<lparr>sex = male, age = 25, heightFeet = 4, heightInches = 11, boneStructure = small\<rparr>"
        "the (compute \<lparr>sex = male, age = 25, heightFeet = 4, heightInches = 11,
           boneStructure = small\<rparr>)"
        "\<lparr>sex = male, age = 40, heightFeet = 5, heightInches = 7, boneStructure = large\<rparr>"
        "the (compute \<lparr>sex = male, age = 40, heightFeet = 5, heightInches = 7,
           boneStructure = large\<rparr>)"]
  by (simp add: calc_defs)




text \<open>
  C9. When the file is absent, \<open>getUsageCount\<close> returns 0 and leaves the storage holding
  the record with count 0; when the file is readable and holds a count, it returns that
  count and leaves the storage as it was; when reading fails for another reason (the file
  cannot be read, or its text does not parse), it returns 0. It always returns a value.
\<close>

theorem getUsageCount_read:
  "getUsageCount Absent = (0, Present True (CountRecord (Some 0))) \<and>
   getUsageCount (Present True (CountRecord (Some n))) =
     (n, Present True (CountRecord (Some n))) \<and>
   (readCount f = Inl OtherError \<longrightarrow> fst (getUsageCount f) = 0) \<and>
   fst (getUsageCount (Present False t)) = 0 \<and>
   fst (getUsageCount (Present True Unparsable)) = 0"
  by (simp add: counter_defs)

theorem getUsageCount_read_witness:
  "readCount (Present False (CountRecord (Some 5))) = Inl OtherError \<and>
   fst (getUsageCount (Present False (CountRecord (Some 5)))) = 0"
  using getUsageCount_read [of 0 "Present False (CountRecord (Some 5))" Unparsable]
  by (simp add: readCount_def readFile_def)

text \<open>
  C10. A read that fails for a reason other than the file's absence leaves the storage as
  it was: \<open>getUsageCount\<close> writes only when the file is absent, and then it writes the
  record with count 0.
\<close>

theorem failed_read_writes_nothing:
  "(readCount f = Inl OtherError \<longrightarrow> snd (getUsageCount f) = f) \<and>
   (f \<noteq> Absent \<longrightarrow> snd (getUsageCount f) = f) \<and>
   (readCount f = Inl ENOENT \<longleftrightarrow> f = Absent) \<and>
   snd (getUsageCount Absent) = Present True (CountRecord (Some 0))"
  by (cases f) (auto simp add: counter_defs split: sum.splits file_text.splits option.splits)

theorem failed_read_writes_nothing_witness:
  "readCount (Present True Unparsable) = Inl OtherError \<and>
   snd (getUsageCount (Present True Unparsable)) = Present True Unparsable"
  using failed_read_writes_nothing [of "Present True Unparsable"]
  by (simp add: readCount_def readFile_def parseCount_def)

end
